theory Spec2Isabelle
  imports Complex_Main
begin

section \<open>Python strings\<close>

text \<open>
  A Python \<^verbatim>\<open>str\<close> is a sequence of Unicode code points. It is modelled as a list of
  natural numbers, one per code point, so that lengths and character classes are those
  of the program. Literals of the program are written with \<open>ustr\<close>.
\<close>

type_synonym pystr = "nat list"

definition ustr :: "string \<Rightarrow> pystr" where
  "ustr s = map of_char s"

text \<open>The character class \<^verbatim>\<open>[A-Za-z0-9]\<close> of the regular expressions.\<close>

definition is_alnum :: "nat \<Rightarrow> bool" where
  "is_alnum c \<longleftrightarrow> (48 \<le> c \<and> c \<le> 57) \<or> (65 \<le> c \<and> c \<le> 90) \<or> (97 \<le> c \<and> c \<le> 122)"

text \<open>
  The characters \<^verbatim>\<open>str.strip()\<close> removes: the code points for which
  \<^verbatim>\<open>str.isspace()\<close> holds.
\<close>

definition is_space :: "nat \<Rightarrow> bool" where
  "is_space c \<longleftrightarrow>
     (9 \<le> c \<and> c \<le> 13) \<or> (28 \<le> c \<and> c \<le> 32) \<or> c = 133 \<or> c = 160 \<or> c = 5760 \<or>
     (8192 \<le> c \<and> c \<le> 8202) \<or> c = 8232 \<or> c = 8233 \<or> c = 8239 \<or> c = 8287 \<or> c = 12288"

definition strip :: "pystr \<Rightarrow> pystr" where
  "strip s = rev (dropWhile is_space (rev (dropWhile is_space s)))"

text \<open>\<^verbatim>\<open>s.startswith(p)\<close>.\<close>

fun startswith :: "pystr \<Rightarrow> pystr \<Rightarrow> bool" where
  "startswith s [] = True"
| "startswith [] (p # ps) = False"
| "startswith (c # cs) (p # ps) = (c = p \<and> startswith cs ps)"

section \<open>extract\_gift\_code\<close>

text \<open>
  Each URL pattern is a literal followed by the group \<^verbatim>\<open>([A-Za-z0-9]{16,25})\<close>. At a
  given position the pattern matches when the literal stands there and at least 16
  characters of the class follow; the quantifier is greedy, so the group is the run of
  such characters, cut at 25.
\<close>

definition match_at :: "pystr \<Rightarrow> pystr \<Rightarrow> pystr option" where
  "match_at lit s =
     (if startswith s lit then
        (let run = takeWhile is_alnum (drop (length lit) s)
         in if 16 \<le> length run then Some (take 25 run) else None)
      else None)"






text \<open>A code token: 16 to 25 characters, all of the class \<^verbatim>\<open>[A-Za-z0-9]\<close>.\<close>

definition is_token :: "pystr \<Rightarrow> bool" where
  "is_token t \<longleftrightarrow> list_all is_alnum t \<and> 16 \<le> length t \<and> length t \<le> 25"


section \<open>Python values\<close>

text \<open>
  The values \<^verbatim>\<open>response.json()\<close> can return: \<^verbatim>\<open>None\<close>, booleans, integers, strings,
  lists, and dictionaries with string keys. A dictionary is an association list read by
  \<open>map_of\<close>. JSON numbers with a fraction or an exponent (Python floats) are not part of
  the model; the remote interface declares its numeric fields as integers.
\<close>

datatype pyval =
    PNone
  | PBool bool
  | PInt int
  | PStr pystr
  | PList "pyval list"
  | PDict "(pystr \<times> pyval) list"

text \<open>
  The exceptions of the program. \<open>RequestException d\<close> stands for
  \<^verbatim>\<open>requests.exceptions.RequestException\<close> and its subclasses, \<open>d\<close> being \<^verbatim>\<open>str(e)\<close>.
\<close>

datatype exn = RequestException pystr | AttributeError | TypeError | ValueError

text \<open>\<^verbatim>\<open>d.get(key, default)\<close> on a dictionary.\<close>

definition dict_get :: "(pystr \<times> pyval) list \<Rightarrow> pystr \<Rightarrow> pyval \<Rightarrow> pyval" where
  "dict_get d k dflt = (case map_of d k of Some v \<Rightarrow> v | None \<Rightarrow> dflt)"

text \<open>The truth value of a Python value, as \<^verbatim>\<open>if\<close> and \<^verbatim>\<open>or\<close> test it.\<close>

fun truthy :: "pyval \<Rightarrow> bool" where
  "truthy PNone = False"
| "truthy (PBool b) = b"
| "truthy (PInt i) = (i \<noteq> 0)"
| "truthy (PStr s) = (s \<noteq> [])"
| "truthy (PList xs) = (xs \<noteq> [])"
| "truthy (PDict d) = (d \<noteq> [])"

text \<open>Booleans are integers in Python: \<^verbatim>\<open>True\<close> is 1 and \<^verbatim>\<open>False\<close> is 0.\<close>

fun num_of :: "pyval \<Rightarrow> int option" where
  "num_of (PBool b) = Some (if b then 1 else 0)"
| "num_of (PInt i) = Some i"
| "num_of _ = None"

text \<open>Python's \<^verbatim>\<open>==\<close>, which list comparison uses to find the first differing item.\<close>

fun py_eq :: "pyval \<Rightarrow> pyval \<Rightarrow> bool" where
  "py_eq PNone PNone = True"
| "py_eq (PStr a) (PStr b) = (a = b)"
| "py_eq (PList a) (PList b) = list_all2 py_eq a b"
| "py_eq (PDict a) (PDict b) =
     (set (map fst a) = set (map fst b) \<and>
      list_all (\<lambda>kv. case map_of b (fst kv) of
                        None \<Rightarrow> False
                      | Some w \<Rightarrow>
                          if map_of a (fst kv) = Some (snd kv) then py_eq (snd kv) w else True) a)"
| "py_eq a b = (case (num_of a, num_of b) of (Some x, Some y) \<Rightarrow> x = y | _ \<Rightarrow> False)"

text \<open>
  Python's \<^verbatim>\<open>>=\<close> and \<^verbatim>\<open>>\<close>. Numbers compare by value, strings and lists
  lexicographically; every other pair of operands raises \<^verbatim>\<open>TypeError\<close>.
\<close>

datatype cmp_op = Ge | Gt

fun str_cmp :: "cmp_op \<Rightarrow> pystr \<Rightarrow> pystr \<Rightarrow> bool" where
  "str_cmp op [] [] = (op = Ge)"
| "str_cmp op (x # xs) [] = True"
| "str_cmp op [] (y # ys) = False"
| "str_cmp op (x # xs) (y # ys) = (if x = y then str_cmp op xs ys else y < x)"

fun py_cmp :: "cmp_op \<Rightarrow> pyval \<Rightarrow> pyval \<Rightarrow> exn + bool"
  and list_cmp :: "cmp_op \<Rightarrow> pyval list \<Rightarrow> pyval list \<Rightarrow> exn + bool" where
  "py_cmp op (PStr a) (PStr b) = Inr (str_cmp op a b)"
| "py_cmp op (PList a) (PList b) = list_cmp op a b"
| "py_cmp op a b =
     (case (num_of a, num_of b) of
        (Some x, Some y) \<Rightarrow> Inr (if op = Ge then y \<le> x else y < x)
      | _ \<Rightarrow> Inl TypeError)"
| "list_cmp op [] [] = Inr (op = Ge)"
| "list_cmp op (x # xs) [] = Inr True"
| "list_cmp op [] (y # ys) = Inr False"
| "list_cmp op (x # xs) (y # ys) = (if py_eq x y then list_cmp op xs ys else py_cmp op x y)"

section \<open>The transport and the world\<close>

text \<open>
  The value of the \<^verbatim>\<open>Retry-After\<close> header, by what \<^verbatim>\<open>int()\<close> does with its text:
  \<open>HInt n\<close> is a text that \<^verbatim>\<open>int()\<close> reads as \<open>n\<close>, \<open>HText\<close> one on which it raises
  \<^verbatim>\<open>ValueError\<close>.
\<close>

datatype header_value = HInt int | HText

text \<open>
  The body of a response, by what \<^verbatim>\<open>response.json()\<close> does with it. \<open>Json v\<close> is a
  JSON document that decodes to \<open>v\<close>. \<open>NotJson blank d\<close> is a text that is no JSON
  document: \<open>blank\<close> tells whether \<^verbatim>\<open>response.text\<close> is the empty string, and \<open>d\<close> is
  \<^verbatim>\<open>str(e)\<close> of the error raised.
\<close>

datatype body = NotJson bool pystr | Json pyval

record response =
  status_code :: int
  retry_after_header :: "header_value option"
  body :: body

text \<open>
  What one call of \<^verbatim>\<open>requests.get\<close> does: it returns a response, or raises a
  \<^verbatim>\<open>RequestException\<close> (connection error, timeout) whose description is given.
\<close>

datatype reply = Response response | Failure pystr

text \<open>
  A formatted string: the literal parts and the interpolated values of an f-string, in
  order. The text a value is formatted to is left to \<open>render\<close>'s argument.
\<close>

datatype frag = Lit pystr | Fmt pyval


text \<open>
  The dictionary \<^verbatim>\<open>check_promo_code\<close> returns. The keys \<^verbatim>\<open>uses\<close>, \<^verbatim>\<open>max_uses\<close> and
  \<^verbatim>\<open>raw_data\<close> exist only in the result of a 200 response: \<open>None\<close> is a missing key.
\<close>

record outcome =
  code :: pystr
  valid :: bool
  status :: pystr
  emoji :: pystr
  plan :: pyval
  uses :: "pyval option"
  max_uses :: "pyval option"
  message :: "frag list"
  raw_data :: "pyval option"

text \<open>The five lists of \<^verbatim>\<open>results\<close> in a batch run.\<close>

record report =
  claimable :: "outcome list"
  claimed :: "outcome list"
  invalid :: "outcome list"
  rate_limited :: "outcome list"
  error :: "outcome list"

text \<open>
  The effects of the program, in the order they happen: a GET request to a URL, a
  \<^verbatim>\<open>time.sleep\<close> of some seconds, the progress line of a batch run
  (\<^verbatim>\<open>[i/n] Checking: code...\<close>), and \<^verbatim>\<open>save_results\<close> writing a report to a file. The
  rest of the console output is not modelled.
\<close>

datatype event =
    Get pystr
  | Sleep real
  | Checking nat nat pystr
  | Save pystr report

text \<open>
  The world: \<open>script n\<close> is what the \<open>n\<close>-th request of the run meets, \<open>calls\<close> counts the
  requests made, \<open>trace\<close> lists the effects so far, and \<open>stamp\<close> is the text
  \<^verbatim>\<open>datetime.now().strftime("%Y%m%d_%H%M%S")\<close> gives.
\<close>

record world =
  script :: "nat \<Rightarrow> reply"
  calls :: nat
  trace :: "event list"
  stamp :: pystr

definition requests_get :: "pystr \<Rightarrow> world \<Rightarrow> reply \<times> world" where
  "requests_get url w =
     (script w (calls w), w\<lparr>calls := calls w + 1, trace := trace w @ [Get url]\<rparr>)"

text \<open>\<^verbatim>\<open>time.sleep(d)\<close> raises \<^verbatim>\<open>ValueError\<close> when \<open>d\<close> is negative.\<close>

definition sleep :: "real \<Rightarrow> world \<Rightarrow> (exn + unit) \<times> world" where
  "sleep d w =
     (if d < 0 then (Inl ValueError, w) else (Inr (), w\<lparr>trace := trace w @ [Sleep d]\<rparr>))"

text \<open>
  \<^verbatim>\<open>response.json()\<close>. Since requests 2.27 the error it raises on a text that is no
  JSON document is \<^verbatim>\<open>requests.exceptions.JSONDecodeError\<close>, a \<^verbatim>\<open>RequestException\<close>.
\<close>

definition response_json :: "response \<Rightarrow> exn + pyval" where
  "response_json r =
     (case body r of
        NotJson blank d \<Rightarrow> Inl (RequestException d)
      | Json v \<Rightarrow> Inr v)"

text \<open>The truth value of \<^verbatim>\<open>response.text\<close>: the text is not empty.\<close>

definition response_text :: "response \<Rightarrow> bool" where
  "response_text r = (case body r of NotJson blank d \<Rightarrow> \<not> blank | Json v \<Rightarrow> True)"

text \<open>\<^verbatim>\<open>int(response.headers.get('Retry-After', 3))\<close>.\<close>

definition retry_after_int :: "response \<Rightarrow> exn + int" where
  "retry_after_int r =
     (case retry_after_header r of
        None \<Rightarrow> Inr 3
      | Some (HInt n) \<Rightarrow> Inr n
      | Some HText \<Rightarrow> Inl ValueError)"

section \<open>check\_promo\_code\<close>

definition cross_mark :: pystr where "cross_mark = [10060]"
definition check_mark :: pystr where "check_mark = [9989]"
definition warning_sign :: pystr where "warning_sign = [9888, 65039]"
definition hourglass :: pystr where "hourglass = [9203]"

definition gift_url :: "pystr \<Rightarrow> pystr" where
  "gift_url c = ustr ''https://discord.com/api/v9/entitlements/gift-codes/'' @ c"

text \<open>
  The branch of status 200, from the decoded body on. \<^verbatim>\<open>data.get\<close> and
  \<^verbatim>\<open>plan_info.get\<close> raise \<^verbatim>\<open>AttributeError\<close> on a value that is no dictionary; the
  comparisons raise \<^verbatim>\<open>TypeError\<close> as \<open>py_cmp\<close> says; \<^verbatim>\<open>or\<close> evaluates its second
  operand only when the first is false.
\<close>

definition classify :: "pystr \<Rightarrow> bool \<Rightarrow> pyval \<Rightarrow> exn + outcome" where
  "classify c debug data =
     (case data of
        PDict d \<Rightarrow>
          (let is_redeemed = dict_get d (ustr ''redeemed'') (PBool False);
               uses = dict_get d (ustr ''uses'') (PInt 0);
               max_uses = dict_get d (ustr ''max_uses'') (PInt 1);
               plan_info = dict_get d (ustr ''subscription_plan'') (PDict [])
           in case plan_info of
                PDict p \<Rightarrow>
                  (let plan_name = dict_get p (ustr ''name'') (PStr (ustr ''Unknown''))
                   in case (if truthy is_redeemed then Inr True else py_cmp Ge uses max_uses) of
                        Inl e \<Rightarrow> Inl e
                      | Inr is_claimed \<Rightarrow>
                          (let status = (if is_claimed then ustr ''CLAIMED'' else ustr ''CLAIMABLE'');
                               status_emoji = (if is_claimed then cross_mark else check_mark)
                           in case (case py_cmp Gt uses (PInt 0) of
                                      Inl e \<Rightarrow> Inl e
                                    | Inr True \<Rightarrow> Inr True
                                    | Inr False \<Rightarrow> py_cmp Gt max_uses (PInt 1)) of
                                Inl e \<Rightarrow> Inl e
                              | Inr show_uses \<Rightarrow>
                                  (let extra_info =
                                         (if show_uses
                                          then [Lit (ustr '' (Uses: ''), Fmt uses, Lit (ustr ''/''),
                                                Fmt max_uses, Lit (ustr '')'')]
                                          else [])
                                   in Inr \<lparr>code = c, valid = True, status = status,
                                           emoji = status_emoji, plan = plan_name,
                                           uses = Some uses, max_uses = Some max_uses,
                                           message =
                                             [Lit status_emoji, Lit (ustr '' Code is ''), Lit status,
                                              Lit (ustr '' - ''), Fmt plan_name] @ extra_info,
                                           raw_data = Some (if debug then data else PNone)\<rparr>)))
              | _ \<Rightarrow> Inl AttributeError)
      | _ \<Rightarrow> Inl AttributeError)"

definition invalid_outcome :: "pystr \<Rightarrow> outcome" where
  "invalid_outcome c =
     \<lparr>code = c, valid = False, status = ustr ''INVALID'', emoji = warning_sign,
      plan = PStr (ustr ''N/A''), uses = None, max_uses = None,
      message = [Lit (warning_sign @ ustr '' Code is INVALID (Unknown Gift Code)'')],
      raw_data = None\<rparr>"

definition rate_limited_outcome :: "pystr \<Rightarrow> outcome" where
  "rate_limited_outcome c =
     \<lparr>code = c, valid = False, status = ustr ''RATE_LIMITED'', emoji = hourglass,
      plan = PStr (ustr ''N/A''), uses = None, max_uses = None,
      message = [Lit (hourglass @ ustr '' Rate limited - Try again later or increase delay'')],
      raw_data = None\<rparr>"

definition error_outcome :: "pystr \<Rightarrow> frag list \<Rightarrow> outcome" where
  "error_outcome c msg =
     \<lparr>code = c, valid = False, status = ustr ''ERROR'', emoji = cross_mark,
      plan = PStr (ustr ''N/A''), uses = None, max_uses = None,
      message = msg, raw_data = None\<rparr>"

text \<open>The last branch: a status other than 200, 404 and 429.\<close>

definition unexpected :: "pystr \<Rightarrow> response \<Rightarrow> exn + outcome" where
  "unexpected c r =
     (case (if response_text r then response_json r else Inr (PDict [])) of
        Inl e \<Rightarrow> Inl e
      | Inr (PDict d) \<Rightarrow>
          (let error_msg = dict_get d (ustr ''message'') (PStr (ustr ''Unknown error''))
           in Inr (error_outcome c
                     [Lit (cross_mark @ ustr '' Error checking code: ''), Fmt error_msg]))
      | Inr _ \<Rightarrow> Inl AttributeError)"

text \<open>
  How one pass through the loop body ends: with a \<^verbatim>\<open>return\<close>, with \<^verbatim>\<open>continue\<close>, or
  with an exception.
\<close>

datatype flow = Return outcome | Continue | Raise exn

definition of_result :: "exn + outcome \<Rightarrow> flow" where
  "of_result x = (case x of Inl e \<Rightarrow> Raise e | Inr out \<Rightarrow> Return out)"

text \<open>The body of \<^verbatim>\<open>try\<close>, for the attempt with index \<open>attempt\<close>.\<close>

definition try_block :: "pystr \<Rightarrow> bool \<Rightarrow> int \<Rightarrow> nat \<Rightarrow> world \<Rightarrow> flow \<times> world" where
  "try_block c debug max_retries attempt w =
     (case requests_get (gift_url c) w of
        (Failure d, w1) \<Rightarrow> (Raise (RequestException d), w1)
      | (Response r, w1) \<Rightarrow>
          if status_code r = 200 then
            (case response_json r of
               Inl e \<Rightarrow> (Raise e, w1)
             | Inr data \<Rightarrow> (of_result (classify c debug data), w1))
          else if status_code r = 404 then (Return (invalid_outcome c), w1)
          else if status_code r = 429 then
            (if int attempt < max_retries - 1 then
               (case retry_after_int r of
                  Inl e \<Rightarrow> (Raise e, w1)
                | Inr retry_after \<Rightarrow>
                    (let wait_time = min (retry_after * 2 ^ attempt) 30
                     in case sleep (of_int wait_time) w1 of
                          (Inl e, w2) \<Rightarrow> (Raise e, w2)
                        | (Inr u, w2) \<Rightarrow> (Continue, w2)))
             else (Return (rate_limited_outcome c), w1))
          else (of_result (unexpected c r), w1))"

text \<open>
  One pass through the loop body: the \<^verbatim>\<open>try\<close> block and its handler, which catches
  \<^verbatim>\<open>RequestException\<close> only.
\<close>

definition attempt_once :: "pystr \<Rightarrow> bool \<Rightarrow> int \<Rightarrow> nat \<Rightarrow> world \<Rightarrow> flow \<times> world" where
  "attempt_once c debug max_retries attempt w =
     (case try_block c debug max_retries attempt w of
        (Raise (RequestException d), w1) \<Rightarrow>
          if int attempt < max_retries - 1 then
            (let wait_time = min (2 * 2 ^ attempt) (10 :: int)
             in case sleep (of_int wait_time) w1 of
                  (Inl e, w2) \<Rightarrow> (Raise e, w2)
                | (Inr u, w2) \<Rightarrow> (Continue, w2))
          else
            (Return (error_outcome c [Lit (cross_mark @ ustr '' Network error: ''), Lit d]), w1)
      | other \<Rightarrow> other)"

definition max_retries_exceeded :: "pystr \<Rightarrow> outcome" where
  "max_retries_exceeded c = error_outcome c [Lit (cross_mark @ ustr '' Max retries exceeded'')]"

text \<open>
  The loop \<^verbatim>\<open>for attempt in range(max_retries)\<close> from index \<open>attempt\<close> on, and the
  \<^verbatim>\<open>return\<close> that follows it.
\<close>

function attempts :: "pystr \<Rightarrow> bool \<Rightarrow> int \<Rightarrow> nat \<Rightarrow> world \<Rightarrow> (exn + outcome) \<times> world" where
  "attempts c debug max_retries attempt w =
     (if int attempt < max_retries then
        (case attempt_once c debug max_retries attempt w of
           (Return out, w1) \<Rightarrow> (Inr out, w1)
         | (Raise e, w1) \<Rightarrow> (Inl e, w1)
         | (Continue, w1) \<Rightarrow> attempts c debug max_retries (Suc attempt) w1)
      else (Inr (max_retries_exceeded c), w))"
  by pat_completeness auto
termination
  by (relation "measure (\<lambda>(c, debug, max_retries, attempt, w). nat (max_retries - int attempt))")
    auto

definition check_promo_code :: "pystr \<Rightarrow> bool \<Rightarrow> int \<Rightarrow> world \<Rightarrow> (exn + outcome) \<times> world" where
  "check_promo_code c debug max_retries w = attempts c debug max_retries 0 w"

section \<open>bulk\_check\_from\_file\<close>







section \<open>The delay of batch mode\<close>

text \<open>
  A Python float: a finite value, an infinity, or not a number. Only comparisons with
  constants are made, and those are exact.
\<close>

datatype pyfloat = Finite real | PosInf | NegInf | NaN

fun float_lt :: "pyfloat \<Rightarrow> real \<Rightarrow> bool" where
  "float_lt (Finite x) y = (x < y)"
| "float_lt NegInf y = True"
| "float_lt PosInf y = False"
| "float_lt NaN y = False"

fun float_gt :: "pyfloat \<Rightarrow> real \<Rightarrow> bool" where
  "float_gt (Finite x) y = (y < x)"
| "float_gt PosInf y = True"
| "float_gt NegInf y = False"
| "float_gt NaN y = False"

text \<open>
  The delay \<^verbatim>\<open>main\<close> passes to the batch run, from the text typed at the prompt.
  \<open>py_float\<close> is \<^verbatim>\<open>float()\<close>: \<open>None\<close> where it raises \<^verbatim>\<open>ValueError\<close>.
\<close>

definition main_delay :: "(pystr \<Rightarrow> pyfloat option) \<Rightarrow> pystr \<Rightarrow> pyfloat" where
  "main_delay py_float typed =
     (let delay_input = strip typed
      in if delay_input \<noteq> [] then
           (case py_float delay_input of
              None \<Rightarrow> Finite 2.5
            | Some delay \<Rightarrow>
                if float_lt delay 0 then Finite 2.5
                else if float_gt delay 60 then Finite 60.0
                else delay)
         else Finite 2.5)"

section \<open>Notions used in the statements\<close>

text \<open>
  The body the remote interface declares for a 200 response: a JSON object whose
  optional fields, when present, are a boolean \<^verbatim>\<open>redeemed\<close>, integers \<^verbatim>\<open>uses\<close> and
  \<^verbatim>\<open>max_uses\<close>, and an object \<^verbatim>\<open>subscription_plan\<close>.
\<close>

fun is_bool :: "pyval \<Rightarrow> bool" where
  "is_bool (PBool b) = True"
| "is_bool v = False"

fun is_int :: "pyval \<Rightarrow> bool" where
  "is_int (PInt i) = True"
| "is_int v = False"

fun is_dict :: "pyval \<Rightarrow> bool" where
  "is_dict (PDict d) = True"
| "is_dict v = False"

definition field_is :: "(pyval \<Rightarrow> bool) \<Rightarrow> (pystr \<times> pyval) list \<Rightarrow> pystr \<Rightarrow> bool" where
  "field_is P d k = (case map_of d k of None \<Rightarrow> True | Some v \<Rightarrow> P v)"

definition gift_body :: "(pystr \<times> pyval) list \<Rightarrow> bool" where
  "gift_body d \<longleftrightarrow>
     field_is is_bool d (ustr ''redeemed'') \<and> field_is is_int d (ustr ''uses'') \<and>
     field_is is_int d (ustr ''max_uses'') \<and> field_is is_dict d (ustr ''subscription_plan'')"

text \<open>The three fields as the claim reads them: false, 0 and 1 when absent.\<close>

definition redeemed_of :: "(pystr \<times> pyval) list \<Rightarrow> bool" where
  "redeemed_of d = (case map_of d (ustr ''redeemed'') of Some (PBool b) \<Rightarrow> b | _ \<Rightarrow> False)"

definition uses_of :: "(pystr \<times> pyval) list \<Rightarrow> int" where
  "uses_of d = (case map_of d (ustr ''uses'') of Some (PInt i) \<Rightarrow> i | _ \<Rightarrow> 0)"

definition max_uses_of :: "(pystr \<times> pyval) list \<Rightarrow> int" where
  "max_uses_of d = (case map_of d (ustr ''max_uses'') of Some (PInt i) \<Rightarrow> i | _ \<Rightarrow> 1)"

text \<open>
  A reply the program handles without an exception of its own: a transport failure, a
  text that is no JSON document, a 404, a 200 with a body as declared, a 429 whose
  \<^verbatim>\<open>Retry-After\<close> header is absent or a non-negative integer, and any other status with
  an empty body or a JSON object.
\<close>

definition tame_response :: "response \<Rightarrow> bool" where
  "tame_response r =
     (if status_code r = 200 then
        (case body r of NotJson blank d \<Rightarrow> True | Json (PDict d) \<Rightarrow> gift_body d | Json v \<Rightarrow> False)
      else if status_code r = 404 then True
      else if status_code r = 429 then
        (case retry_after_header r of None \<Rightarrow> True | Some (HInt n) \<Rightarrow> 0 \<le> n | Some HText \<Rightarrow> False)
      else (case body r of NotJson blank d \<Rightarrow> True | Json v \<Rightarrow> is_dict v))"

fun tame :: "reply \<Rightarrow> bool" where
  "tame (Failure d) = True"
| "tame (Response r) = tame_response r"

text \<open>The five outcome kinds, and an outcome that is well formed for a code.\<close>

definition kinds :: "pystr list" where
  "kinds = [ustr ''CLAIMABLE'', ustr ''CLAIMED'', ustr ''INVALID'', ustr ''RATE_LIMITED'',
            ustr ''ERROR'']"

definition well_formed :: "pystr \<Rightarrow> outcome \<Rightarrow> bool" where
  "well_formed c out \<longleftrightarrow>
     code out = c \<and> status out \<in> set kinds \<and> message out \<noteq> [] \<and>
     valid out = (status out = ustr ''CLAIMABLE'' \<or> status out = ustr ''CLAIMED'')"

text \<open>
  The effects of \<open>k\<close> attempts that all end in a retry but the last, from the attempt
  with index \<open>i\<close> on: a request each, and between two requests the sleep \<open>wait i\<close>.
\<close>

fun backoff_trace :: "pystr \<Rightarrow> (nat \<Rightarrow> int) \<Rightarrow> nat \<Rightarrow> nat \<Rightarrow> event list" where
  "backoff_trace u wait i 0 = []"
| "backoff_trace u wait i (Suc 0) = [Get u]"
| "backoff_trace u wait i (Suc (Suc k)) =
     Get u # Sleep (of_int (wait i)) # backoff_trace u wait (Suc i) (Suc k)"




text \<open>A world at the start of a run, and a response, for the concrete cases.\<close>

definition world_of :: "(nat \<Rightarrow> reply) \<Rightarrow> world" where
  "world_of f = \<lparr>script = f, calls = 0, trace = [], stamp = ustr ''20240101_120000''\<rparr>"

definition reply_of :: "int \<Rightarrow> header_value option \<Rightarrow> body \<Rightarrow> reply" where
  "reply_of s h b = Response \<lparr>status_code = s, retry_after_header = h, body = b\<rparr>"

definition sample_code :: pystr where
  "sample_code = ustr ''ABCDEFGHIJKLMNOP''"

text \<open>An answer with a status, no \<^verbatim>\<open>Retry-After\<close> header and a JSON body.\<close>

definition json_response :: "int \<Rightarrow> pyval \<Rightarrow> response" where
  "json_response s v = \<lparr>status_code = s, retry_after_header = None, body = Json v\<rparr>"

text \<open>The world after one more request for a code, and nothing else.\<close>

definition requested :: "pystr \<Rightarrow> world \<Rightarrow> world" where
  "requested c w = w\<lparr>calls := calls w + 1, trace := trace w @ [Get (gift_url c)]\<rparr>"

text \<open>The world after one more request for a code followed by a sleep of \<open>s\<close> seconds.\<close>

definition waited :: "pystr \<Rightarrow> int \<Rightarrow> world \<Rightarrow> world" where
  "waited c s w =
     w\<lparr>calls := calls w + 1, trace := trace w @ [Get (gift_url c), Sleep (of_int s)]\<rparr>"

text \<open>
  The replies on which the \<^verbatim>\<open>try\<close> block raises a \<^verbatim>\<open>RequestException\<close>, with its
  description: a transport failure, and a text that is no JSON document where the
  program calls \<^verbatim>\<open>response.json()\<close>.
\<close>

fun request_error :: "reply \<Rightarrow> pystr option" where
  "request_error (Failure d) = Some d"
| "request_error (Response r) =
     (if status_code r = 200 then
        (case body r of NotJson blank d \<Rightarrow> Some d | Json v \<Rightarrow> None)
      else if status_code r = 404 \<or> status_code r = 429 then None
      else (case body r of NotJson blank d \<Rightarrow> if blank then None else Some d | Json v \<Rightarrow> None))"

definition network_error :: "pystr \<Rightarrow> pystr \<Rightarrow> outcome" where
  "network_error c d = error_outcome c [Lit (cross_mark @ ustr '' Network error: ''), Lit d]"


section \<open>Properties of the extractor\<close>


lemma startswith_append: "startswith (p @ s) p"
  by (induction p) auto



lemma takeWhile_all: "list_all P t \<Longrightarrow> takeWhile P t = t"
  by (simp add: list_all_iff)

lemma match_at_token: "is_token t \<Longrightarrow> match_at lit (lit @ t) = Some t"
  by (simp add: match_at_def startswith_append is_token_def takeWhile_all)

















section \<open>Properties of check\_promo\_code: the 200 response\<close>

declare attempts.simps [simp del]

lemma typed_fields:
  assumes "gift_body d"
  shows "dict_get d (ustr ''redeemed'') (PBool False) = PBool (redeemed_of d)"
    and "dict_get d (ustr ''uses'') (PInt 0) = PInt (uses_of d)"
    and "dict_get d (ustr ''max_uses'') (PInt 1) = PInt (max_uses_of d)"
    and "\<exists>p. dict_get d (ustr ''subscription_plan'') (PDict []) = PDict p"
proof -
  from assms have a: "field_is is_bool d (ustr ''redeemed'')" "field_is is_int d (ustr ''uses'')"
    "field_is is_int d (ustr ''max_uses'')" "field_is is_dict d (ustr ''subscription_plan'')"
    by (simp_all add: gift_body_def)
  from a(1) show "dict_get d (ustr ''redeemed'') (PBool False) = PBool (redeemed_of d)"
    by (cases "map_of d (ustr ''redeemed'')"; cases "the (map_of d (ustr ''redeemed''))")
      (simp_all add: field_is_def dict_get_def redeemed_of_def)
  from a(2) show "dict_get d (ustr ''uses'') (PInt 0) = PInt (uses_of d)"
    by (cases "map_of d (ustr ''uses'')"; cases "the (map_of d (ustr ''uses''))")
      (simp_all add: field_is_def dict_get_def uses_of_def)
  from a(3) show "dict_get d (ustr ''max_uses'') (PInt 1) = PInt (max_uses_of d)"
    by (cases "map_of d (ustr ''max_uses'')"; cases "the (map_of d (ustr ''max_uses''))")
      (simp_all add: field_is_def dict_get_def max_uses_of_def)
  from a(4) show "\<exists>p. dict_get d (ustr ''subscription_plan'') (PDict []) = PDict p"
    by (cases "map_of d (ustr ''subscription_plan'')";
        cases "the (map_of d (ustr ''subscription_plan''))")
      (simp_all add: field_is_def dict_get_def)
qed

lemma classify_gift_body:
  assumes "gift_body d"
  shows "\<exists>out. classify c debug (PDict d) = Inr out \<and> code out = c \<and> valid out \<and>
           status out = (if redeemed_of d \<or> max_uses_of d \<le> uses_of d
                         then ustr ''CLAIMED'' else ustr ''CLAIMABLE'') \<and>
           message out \<noteq> [] \<and>
           raw_data out = Some (if debug then PDict d else PNone)"
proof -
  from typed_fields(4) [OF assms] obtain p
    where p: "dict_get d (ustr ''subscription_plan'') (PDict []) = PDict p" by blast
  show ?thesis
    by (simp add: classify_def typed_fields(1-3) [OF assms] p Let_def split: bool.splits)
qed


lemma classify_returns:
  assumes "classify c debug data = Inr out"
  shows "\<exists>d. data = PDict d \<and> code out = c \<and> valid out \<and> message out \<noteq> [] \<and>
           raw_data out = Some (if debug then data else PNone) \<and>
           status out =
             (if truthy (dict_get d (ustr ''redeemed'') (PBool False)) \<or>
                 py_cmp Ge (dict_get d (ustr ''uses'') (PInt 0))
                   (dict_get d (ustr ''max_uses'') (PInt 1)) = Inr True
              then ustr ''CLAIMED'' else ustr ''CLAIMABLE'')"
proof (cases data)
  case (PDict d)
  show ?thesis
  proof (cases "dict_get d (ustr ''subscription_plan'') (PDict [])")
    case (PDict p)
    with assms \<open>data = PDict d\<close> show ?thesis
      unfolding classify_def
      by (auto simp: Let_def split: sum.splits if_splits bool.splits)
  qed (use assms \<open>data = PDict d\<close> in \<open>simp_all add: classify_def\<close>)
qed (use assms in \<open>simp_all add: classify_def\<close>)

lemma py_cmp_raises:
  "py_cmp op a b = Inl e \<Longrightarrow> e = TypeError"
  "list_cmp op xs ys = Inl e \<Longrightarrow> e = TypeError"
  by (induction op a b and op xs ys rule: py_cmp_list_cmp.induct)
    (auto split: option.splits if_splits)

lemma classify_raises:
  assumes "classify c debug data = Inl e"
  shows "e = AttributeError \<or> e = TypeError"
proof (cases data)
  case (PDict d)
  show ?thesis
  proof (cases "dict_get d (ustr ''subscription_plan'') (PDict [])")
    case (PDict p)
    with assms \<open>data = PDict d\<close> show ?thesis
      unfolding classify_def
      by (auto simp: Let_def simp del: py_cmp.simps split: sum.splits if_splits bool.splits
          dest: py_cmp_raises(1))
  qed (use assms \<open>data = PDict d\<close> in \<open>simp_all add: classify_def\<close>)
qed (use assms in \<open>simp_all add: classify_def\<close>)

lemma try_block_200:
  "script w (calls w) = Response r \<Longrightarrow> status_code r = 200 \<Longrightarrow> body r = Json data \<Longrightarrow>
   try_block c debug m a w = (of_result (classify c debug data), requested c w)"
  by (simp add: try_block_def requests_get_def response_json_def requested_def)

lemma attempt_once_200:
  assumes "script w (calls w) = Response r" "status_code r = 200" "body r = Json data"
  shows "attempt_once c debug m a w = (of_result (classify c debug data), requested c w)"
proof (cases "classify c debug data")
  case (Inl e)
  with classify_raises [OF Inl] show ?thesis
    by (auto simp: attempt_once_def try_block_200 [OF assms] of_result_def)
next
  case (Inr out)
  then show ?thesis
    by (simp add: attempt_once_def try_block_200 [OF assms] of_result_def)
qed

lemma check_200:
  assumes "0 < m" "script w (calls w) = Response r" "status_code r = 200" "body r = Json data"
  shows "check_promo_code c debug m w = (classify c debug data, requested c w)"
  using assms(1)
  by (cases "classify c debug data")
    (simp_all add: check_promo_code_def attempts.simps [of c debug m 0] attempt_once_200 [OF assms(2-4)]
      of_result_def)



text \<open>
  Claim C8. For a 200 response with a JSON body, the outcome returned holds the decoded
  body itself under \<^verbatim>\<open>raw_data\<close> when \<open>debug\<close> is set, and Python's \<^verbatim>\<open>None\<close> (no
  payload) when it is not; and for a body of the declared types an outcome is returned.
\<close>

theorem raw_data_spec:
  assumes "0 < max_retries" "script w (calls w) = Response r" "status_code r = 200"
    "body r = Json data"
  shows "(fst (check_promo_code c debug max_retries w) = Inr out \<longrightarrow>
            raw_data out = Some (if debug then data else PNone))
       \<and> (data = PDict d \<and> gift_body d \<longrightarrow>
            (\<exists>out. check_promo_code c debug max_retries w = (Inr out, requested c w) \<and>
                   raw_data out = Some (if debug then data else PNone)))"
proof -
  note run = check_200 [OF assms, of c debug]
  have "fst (check_promo_code c debug max_retries w) = Inr out \<Longrightarrow>
      raw_data out = Some (if debug then data else PNone)"
    using classify_returns [of c debug data out] by (auto simp: run)
  moreover have "\<exists>out. check_promo_code c debug max_retries w = (Inr out, requested c w) \<and>
        raw_data out = Some (if debug then data else PNone)"
    if "data = PDict d" "gift_body d"
  proof -
    from classify_gift_body [OF that(2), of c debug] obtain out
      where "classify c debug (PDict d) = Inr out"
        "raw_data out = Some (if debug then PDict d else PNone)"
      by blast
    with that(1) show ?thesis by (simp add: run)
  qed
  ultimately show ?thesis by blast
qed

text \<open>
  The theorem at the body \<^verbatim>\<open>{"uses": 0}\<close>, with and without \<open>debug\<close>.
\<close>

theorem raw_data_spec_witness:
  "(\<exists>out. check_promo_code sample_code True 3
            (world_of (\<lambda>n. Response (json_response 200 (PDict [(ustr ''uses'', PInt 0)])))) =
          (Inr out, requested sample_code
            (world_of (\<lambda>n. Response (json_response 200 (PDict [(ustr ''uses'', PInt 0)]))))) \<and>
          raw_data out = Some (PDict [(ustr ''uses'', PInt 0)]))
   \<and> (\<exists>out. check_promo_code sample_code False 3
            (world_of (\<lambda>n. Response (json_response 200 (PDict [(ustr ''uses'', PInt 0)])))) =
          (Inr out, requested sample_code
            (world_of (\<lambda>n. Response (json_response 200 (PDict [(ustr ''uses'', PInt 0)]))))) \<and>
          raw_data out = Some PNone)"
proof -
  let ?d = "[(ustr ''uses'', PInt 0)]"
  let ?r = "json_response 200 (PDict ?d)"
  let ?w = "world_of (\<lambda>n. Response ?r)"
  have p: "0 < (3::int)" "script ?w (calls ?w) = Response ?r" "status_code ?r = 200"
    "body ?r = Json (PDict ?d)"
    by (simp_all add: world_of_def json_response_def)
  have g: "gift_body ?d"
    by (simp add: gift_body_def field_is_def ustr_def)
  from raw_data_spec [OF p, of sample_code True _ ?d] g
  have "\<exists>out. check_promo_code sample_code True 3 ?w = (Inr out, requested sample_code ?w) \<and>
          raw_data out = Some (PDict ?d)"
    by simp
  moreover from raw_data_spec [OF p, of sample_code False _ ?d] g
  have "\<exists>out. check_promo_code sample_code False 3 ?w = (Inr out, requested sample_code ?w) \<and>
          raw_data out = Some PNone"
    by simp
  ultimately show ?thesis by blast
qed

section \<open>Properties of the delay of batch mode\<close>

text \<open>
  Claim C7 says that a value \<open>v\<close> that parses is passed on as \<open>min (max v 0) 60\<close>. At the
  input \<^verbatim>\<open>-1\<close> that would be 0; the program falls back to the default 2.5 (and says so:
  "Delay cannot be negative, using default").
\<close>

theorem main_delay_counterexample:
  "main_delay (\<lambda>s. Some (Finite (- 1))) (ustr ''-1'') = Finite 2.5
   \<and> main_delay (\<lambda>s. Some (Finite (- 1))) (ustr ''-1'') \<noteq> Finite (min (max (- 1) 0) 60)"
  by (simp add: main_delay_def Let_def strip_def ustr_def is_space_def)

text \<open>
  Claim C7, amended. A value \<open>v\<close> that parses is passed on unchanged when
  \<open>0 \<le> v \<le> 60\<close> and as 60 when \<open>v > 60\<close>; a negative value, an empty input and an input
  that does not parse give the default 2.5. So the delay lies between 0 and 60 whenever
  \<^verbatim>\<open>float()\<close> does not return NaN.
\<close>

theorem main_delay_spec:
  "(strip typed \<noteq> [] \<and> py_float (strip typed) = Some (Finite v) \<and> 0 \<le> v \<longrightarrow>
      main_delay py_float typed = Finite (min v 60))
   \<and> (strip typed \<noteq> [] \<and> py_float (strip typed) = Some (Finite v) \<and> v < 0 \<longrightarrow>
      main_delay py_float typed = Finite 2.5)
   \<and> (strip typed = [] \<or> py_float (strip typed) = None \<longrightarrow>
      main_delay py_float typed = Finite 2.5)
   \<and> (py_float (strip typed) \<noteq> Some NaN \<longrightarrow>
      (\<exists>d. main_delay py_float typed = Finite d \<and> 0 \<le> d \<and> d \<le> 60))"
proof (intro conjI impI)
  assume "strip typed \<noteq> [] \<and> py_float (strip typed) = Some (Finite v) \<and> 0 \<le> v"
  then show "main_delay py_float typed = Finite (min v 60)"
    by (auto simp: main_delay_def Let_def min_def)
next
  assume "strip typed \<noteq> [] \<and> py_float (strip typed) = Some (Finite v) \<and> v < 0"
  then show "main_delay py_float typed = Finite 2.5"
    by (simp add: main_delay_def Let_def)
next
  assume "strip typed = [] \<or> py_float (strip typed) = None"
  then show "main_delay py_float typed = Finite 2.5"
    by (auto simp: main_delay_def Let_def)
next
  assume a: "py_float (strip typed) \<noteq> Some NaN"
  have dflt: "\<exists>d::real. d * 2 = 5 \<and> 0 \<le> d \<and> d \<le> 60"
    by (rule exI [of _ "5 / 2"]) simp
  show "\<exists>d. main_delay py_float typed = Finite d \<and> 0 \<le> d \<and> d \<le> 60"
  proof (cases "py_float (strip typed)")
    case None
    then show ?thesis using dflt by (simp add: main_delay_def Let_def)
  next
    case (Some x)
    with a show ?thesis
      using dflt by (cases x) (auto simp: main_delay_def Let_def)
  qed
qed

text \<open>
  The theorem at the inputs \<^verbatim>\<open>" 5 "\<close>, \<^verbatim>\<open>"-3"\<close>, \<^verbatim>\<open>"abc"\<close> and \<^verbatim>\<open>"inf"\<close>.
\<close>

theorem main_delay_spec_witness:
  "main_delay (\<lambda>s. if s = ustr ''5'' then Some (Finite 5) else None) (ustr '' 5 '') = Finite 5
   \<and> main_delay (\<lambda>s. if s = ustr ''-3'' then Some (Finite (- 3)) else None) (ustr ''-3'') = Finite 2.5
   \<and> main_delay (\<lambda>s. None) (ustr ''abc'') = Finite 2.5
   \<and> (\<exists>d. main_delay (\<lambda>s. Some PosInf) (ustr ''inf'') = Finite d \<and> 0 \<le> d \<and> d \<le> 60)"
  using main_delay_spec [of "ustr '' 5 ''" "\<lambda>s. if s = ustr ''5'' then Some (Finite 5) else None" 5]
    main_delay_spec [of "ustr ''-3''" "\<lambda>s. if s = ustr ''-3'' then Some (Finite (- 3)) else None" "- 3"]
    main_delay_spec [of "ustr ''abc''" "\<lambda>s. None" 0]
    main_delay_spec [of "ustr ''inf''" "\<lambda>s. Some PosInf" 0]
  by (simp add: strip_def ustr_def is_space_def)

section \<open>Properties of check\_promo\_code: retries\<close>

lemma backoff_nonneg: "\<not> min (2 * 2 ^ a) (10 :: int) < 0"
  by (simp add: min_def)

lemma attempt_once_request_error:
  assumes "request_error (script w (calls w)) = Some d"
  shows "attempt_once c debug m a w =
           (if int a < m - 1 then (Continue, waited c (min (2 * 2 ^ a) 10) w)
            else (Return (network_error c d), requested c w))"
proof (cases "script w (calls w)")
  case (Failure d')
  with assms show ?thesis
    by (simp add: attempt_once_def try_block_def requests_get_def sleep_def waited_def
        requested_def network_error_def Let_def backoff_nonneg)
next
  case (Response r)
  show ?thesis
  proof (cases "body r")
    case (NotJson blank d')
    with assms Response show ?thesis
      by (auto simp: attempt_once_def try_block_def requests_get_def sleep_def waited_def
          requested_def network_error_def Let_def backoff_nonneg response_json_def unexpected_def
          response_text_def of_result_def split: if_splits)
  next
    case (Json v)
    with assms Response show ?thesis by (simp split: if_splits)
  qed
qed

lemma attempt_once_404:
  assumes "script w (calls w) = Response r" "status_code r = 404"
  shows "attempt_once c debug m a w = (Return (invalid_outcome c), requested c w)"
  using assms
  by (simp add: attempt_once_def try_block_def requests_get_def requested_def)

lemma attempt_once_429:
  assumes "script w (calls w) = Response r" "status_code r = 429"
  shows "attempt_once c debug m a w =
           (if int a < m - 1 then
              (case retry_after_int r of
                 Inl e \<Rightarrow> (Raise ValueError, requested c w)
               | Inr ra \<Rightarrow>
                   if min (ra * 2 ^ a) 30 < 0 then (Raise ValueError, requested c w)
                   else (Continue, waited c (min (ra * 2 ^ a) 30) w))
            else (Return (rate_limited_outcome c), requested c w))"
proof -
  have e: "retry_after_int r = Inl x \<Longrightarrow> x = ValueError" for x
    by (auto simp: retry_after_int_def split: option.splits header_value.splits)
  show ?thesis
    using assms e
    by (auto simp: attempt_once_def try_block_def requests_get_def requested_def waited_def
        sleep_def Let_def split: sum.splits)
qed

lemma attempt_once_unexpected:
  assumes "script w (calls w) = Response r" "status_code r \<noteq> 200" "status_code r \<noteq> 404"
    "status_code r \<noteq> 429" "request_error (Response r) = None"
  shows "attempt_once c debug m a w =
           (case (case body r of NotJson blank d \<Rightarrow> PDict [] | Json v \<Rightarrow> v) of
              PDict d \<Rightarrow>
                (Return (error_outcome c
                   [Lit (cross_mark @ ustr '' Error checking code: ''),
                    Fmt (dict_get d (ustr ''message'') (PStr (ustr ''Unknown error'')))]),
                 requested c w)
            | _ \<Rightarrow> (Raise AttributeError, requested c w))"
proof (cases "body r")
  case (NotJson blank d)
  with assms show ?thesis
    by (auto simp: attempt_once_def try_block_def requests_get_def requested_def unexpected_def
        response_text_def of_result_def split: if_splits)
next
  case (Json v)
  with assms show ?thesis
    by (cases v)
      (simp_all add: attempt_once_def try_block_def requests_get_def requested_def unexpected_def
        response_text_def response_json_def of_result_def)
qed

lemma waited_fields [simp]:
  "script (waited c s w) = script w" "calls (waited c s w) = calls w + 1"
  "trace (waited c s w) = trace w @ [Get (gift_url c), Sleep (of_int s)]"
  by (simp_all add: waited_def)

lemma requested_fields [simp]:
  "script (requested c w) = script w" "calls (requested c w) = calls w + 1"
  "trace (requested c w) = trace w @ [Get (gift_url c)]"
  by (simp_all add: requested_def)

lemma attempts_chain:
  assumes "a < n"
    and "\<forall>i w'. a \<le> i \<and> i < n \<and> script w' = script w \<and> calls w' = calls w + (i - a) \<longrightarrow>
           attempt_once c debug (int n) i w' =
             (if i < n - 1 then (Continue, waited c (wait i) w') else (Return out, requested c w'))"
  shows "attempts c debug (int n) a w =
           (Inr out, w\<lparr>calls := calls w + (n - a),
                        trace := trace w @ backoff_trace (gift_url c) wait a (n - a)\<rparr>)"
  using assms
proof (induction "n - a" arbitrary: a w)
  case 0
  then show ?case by simp
next
  case (Suc k)
  from Suc.prems(2) have here:
    "attempt_once c debug (int n) a w =
       (if a < n - 1 then (Continue, waited c (wait a) w) else (Return out, requested c w))"
    using Suc.prems(1) by simp
  show ?case
  proof (cases "a < n - 1")
    case False
    with Suc.prems(1) have "n - a = Suc 0" by simp
    with False here Suc.prems(1) show ?thesis
      by (simp add: attempts.simps [of c debug "int n" a] requested_def)
  next
    case True
    let ?w = "waited c (wait a) w"
    have k: "k = n - Suc a" using Suc.hyps(2) by simp
    have step: "\<forall>i w'. Suc a \<le> i \<and> i < n \<and> script w' = script ?w \<and>
        calls w' = calls ?w + (i - Suc a) \<longrightarrow>
        attempt_once c debug (int n) i w' =
          (if i < n - 1 then (Continue, waited c (wait i) w') else (Return out, requested c w'))"
    proof (intro allI impI)
      fix i and w' :: world
      assume h: "Suc a \<le> i \<and> i < n \<and> script w' = script ?w \<and> calls w' = calls ?w + (i - Suc a)"
      then have "a \<le> i \<and> i < n \<and> script w' = script w \<and> calls w' = calls w + (i - a)"
        by auto
      with Suc.prems(2) show "attempt_once c debug (int n) i w' =
          (if i < n - 1 then (Continue, waited c (wait i) w') else (Return out, requested c w'))"
        by blast
    qed
    from True have lt: "Suc a < n" by simp
    have rest: "attempts c debug (int n) (Suc a) ?w =
        (Inr out, ?w\<lparr>calls := calls ?w + (n - Suc a),
                      trace := trace ?w @ backoff_trace (gift_url c) wait (Suc a) (n - Suc a)\<rparr>)"
      by (rule Suc.hyps(1) [OF k lt step])
    from lt obtain j where j: "n - a = Suc (Suc j)" "n - Suc a = Suc j"
      by (metis Suc_diff_Suc Suc_lessD diff_Suc_Suc less_imp_Suc_add add_diff_cancel_left'
          Suc.prems(1))
    from True Suc.prems(1) here rest j show ?thesis
      by (simp add: attempts.simps [of c debug "int n" a] waited_def)
  qed
qed

lemma attempts_request_errors:
  assumes "0 < n" and "\<forall>i<n. request_error (script w (calls w + i)) = Some (d i)"
  shows "check_promo_code c debug (int n) w =
           (Inr (network_error c (d (n - 1))),
            w\<lparr>calls := calls w + n,
              trace := trace w @ backoff_trace (gift_url c) (\<lambda>i. min (2 * 2 ^ i) 10) 0 n\<rparr>)"
proof -
  have "attempts c debug (int n) 0 w =
      (Inr (network_error c (d (n - 1))),
       w\<lparr>calls := calls w + (n - 0),
         trace := trace w @ backoff_trace (gift_url c) (\<lambda>i. min (2 * 2 ^ i) 10) 0 (n - 0)\<rparr>)"
  proof (rule attempts_chain [OF assms(1)], intro allI impI)
    fix i and w' :: world
    assume h: "0 \<le> i \<and> i < n \<and> script w' = script w \<and> calls w' = calls w + (i - 0)"
    with assms(2) have "request_error (script w' (calls w')) = Some (d i)" by simp
    from attempt_once_request_error [OF this, of c debug "int n" i]
    show "attempt_once c debug (int n) i w' =
        (if i < n - 1 then (Continue, waited c (min (2 * 2 ^ i) 10) w')
         else (Return (network_error c (d (n - 1))), requested c w'))"
    proof (cases "i < n - 1")
      case True
      then have "int i < int n - 1" by linarith
      with True \<open>attempt_once c debug (int n) i w' = _\<close> show ?thesis by simp
    next
      case False
      with h have "i = n - 1" "\<not> int i < int n - 1" by linarith+
      with False \<open>attempt_once c debug (int n) i w' = _\<close> show ?thesis by simp
    qed
  qed
  then show ?thesis by (simp add: check_promo_code_def)
qed

lemma attempts_rate_limited:
  assumes "0 < n"
    and "\<forall>i<n. \<exists>r. script w (calls w + i) = Response r \<and> status_code r = 429 \<and>
           retry_after_int r = Inr (ra i) \<and> 0 \<le> ra i"
  shows "check_promo_code c debug (int n) w =
           (Inr (rate_limited_outcome c),
            w\<lparr>calls := calls w + n,
              trace := trace w @ backoff_trace (gift_url c) (\<lambda>i. min (ra i * 2 ^ i) 30) 0 n\<rparr>)"
proof -
  have "attempts c debug (int n) 0 w =
      (Inr (rate_limited_outcome c),
       w\<lparr>calls := calls w + (n - 0),
         trace := trace w @ backoff_trace (gift_url c) (\<lambda>i. min (ra i * 2 ^ i) 30) 0 (n - 0)\<rparr>)"
  proof (rule attempts_chain [OF assms(1)], intro allI impI)
    fix i and w' :: world
    assume h: "0 \<le> i \<and> i < n \<and> script w' = script w \<and> calls w' = calls w + (i - 0)"
    with assms(2) obtain r where r: "script w' (calls w') = Response r" "status_code r = 429"
      "retry_after_int r = Inr (ra i)" "0 \<le> ra i"
      by auto
    from r(4) have "0 \<le> ra i * 2 ^ i" by simp
    then have nonneg: "\<not> min (ra i * 2 ^ i) 30 < 0"
      by (simp add: min_def)
    note once = attempt_once_429 [OF r(1,2), of c debug "int n" i]
    show "attempt_once c debug (int n) i w' =
        (if i < n - 1 then (Continue, waited c (min (ra i * 2 ^ i) 30) w')
         else (Return (rate_limited_outcome c), requested c w'))"
    proof (cases "i < n - 1")
      case True
      then have "int i < int n - 1" by linarith
      with True once r(3) nonneg show ?thesis by simp
    next
      case False
      with h have "\<not> int i < int n - 1" by linarith
      with False once show ?thesis by simp
    qed
  qed
  then show ?thesis by (simp add: check_promo_code_def)
qed

text \<open>
  Claim C3. When each of the \<open>max_retries\<close> attempts meets a transport failure
  (\<open>max_retries \<ge> 1\<close>), the call makes \<open>max_retries\<close> requests, sleeps
  \<open>min (2 * 2 ^ i) 10\<close> seconds after the attempt with index \<open>i\<close> before it retries, and
  after the last attempt returns an outcome with status ERROR whose message carries the
  description of the last failure.
\<close>

theorem transport_failure_spec:
  assumes "1 \<le> max_retries"
    and "\<forall>i. int i < max_retries \<longrightarrow> script w (calls w + i) = Failure (d i)"
  shows "check_promo_code c debug max_retries w =
           (Inr (network_error c (d (nat max_retries - 1))),
            w\<lparr>calls := calls w + nat max_retries,
              trace := trace w @
                backoff_trace (gift_url c) (\<lambda>i. min (2 * 2 ^ i) 10) 0 (nat max_retries)\<rparr>)
       \<and> status (network_error c (d (nat max_retries - 1))) = ustr ''ERROR''
       \<and> message (network_error c (d (nat max_retries - 1))) =
           [Lit (cross_mark @ ustr '' Network error: ''), Lit (d (nat max_retries - 1))]"
proof -
  from assms(1) have n: "0 < nat max_retries" "int (nat max_retries) = max_retries" by simp_all
  have "\<forall>i<nat max_retries. request_error (script w (calls w + i)) = Some (d i)"
    using assms(2) by auto
  from attempts_request_errors [OF n(1) this, of c debug, unfolded n(2)] show ?thesis
    by (simp add: network_error_def error_outcome_def)
qed

text \<open>
  The theorem for five attempts that all time out: the sleeps are 2, 4, 8 and 10 seconds.
\<close>

theorem transport_failure_spec_witness:
  "check_promo_code sample_code False 5 (world_of (\<lambda>n. Failure (ustr ''timed out''))) =
     (Inr (network_error sample_code (ustr ''timed out'')),
      (world_of (\<lambda>n. Failure (ustr ''timed out'')))
        \<lparr>calls := 5,
         trace := [Get (gift_url sample_code), Sleep 2, Get (gift_url sample_code), Sleep 4,
                   Get (gift_url sample_code), Sleep 8, Get (gift_url sample_code), Sleep 10,
                   Get (gift_url sample_code)]\<rparr>)"
  using transport_failure_spec [of 5 "world_of (\<lambda>n. Failure (ustr ''timed out''))"
      "\<lambda>i. ustr ''timed out''" sample_code False]
  by (simp add: world_of_def eval_nat_numeral)

text \<open>
  Claim C1 holds for every integer value of the \<^verbatim>\<open>Retry-After\<close> header only when the
  value is not negative. With \<^verbatim>\<open>Retry-After: -1\<close> the wait is \<open>min (-1 * 2 ^ 0) 30 = -1\<close>,
  \<^verbatim>\<open>time.sleep(-1)\<close> raises \<^verbatim>\<open>ValueError\<close>, which the handler does not catch: the call
  ends after one request, with no outcome.
\<close>

theorem rate_limit_counterexample:
  "check_promo_code sample_code False 3
     (world_of (\<lambda>n. reply_of 429 (Some (HInt (- 1))) (NotJson True []))) =
   (Inl ValueError,
    requested sample_code (world_of (\<lambda>n. reply_of 429 (Some (HInt (- 1))) (NotJson True []))))"
  using attempt_once_429 [of "world_of (\<lambda>n. reply_of 429 (Some (HInt (- 1))) (NotJson True []))"
      "\<lparr>status_code = 429, retry_after_header = Some (HInt (- 1)), body = NotJson True []\<rparr>"
      sample_code False 3 0]
  by (simp add: check_promo_code_def attempts.simps [of _ _ 3 0] world_of_def reply_of_def
      retry_after_int_def)

text \<open>
  Claim C1, amended. With \<open>max_retries = 3\<close>, when the three attempts each meet a 429
  response whose \<^verbatim>\<open>Retry-After\<close> header is absent or a non-negative integer, the call
  makes exactly three requests, sleeps \<open>min (ra i * 2 ^ i) 30\<close> seconds after the attempts
  0 and 1, where \<open>ra i\<close> is the header's integer or 3 when the header is absent, and
  returns an outcome with status RATE\_LIMITED.
\<close>

theorem rate_limit_spec:
  assumes "\<forall>i<3. \<exists>r. script w (calls w + i) = Response r \<and> status_code r = 429 \<and>
             retry_after_int r = Inr (ra i) \<and> 0 \<le> ra i"
  shows "check_promo_code c debug 3 w =
           (Inr (rate_limited_outcome c),
            w\<lparr>calls := calls w + 3,
              trace := trace w @
                [Get (gift_url c), Sleep (of_int (min (ra 0 * 2 ^ 0) 30)),
                 Get (gift_url c), Sleep (of_int (min (ra 1 * 2 ^ 1) 30)),
                 Get (gift_url c)]\<rparr>)
       \<and> status (rate_limited_outcome c) = ustr ''RATE_LIMITED''
       \<and> (\<forall>r. retry_after_header r = None \<longrightarrow> retry_after_int r = Inr 3)
       \<and> (\<forall>r n. retry_after_header r = Some (HInt n) \<longrightarrow> retry_after_int r = Inr n)"
  using attempts_rate_limited [of 3 w ra c debug] assms
  by (simp add: eval_nat_numeral rate_limited_outcome_def retry_after_int_def)

text \<open>
  The theorem at \<^verbatim>\<open>Retry-After: 10\<close> (sleeps of 10 and 20 seconds) and without the
  header (sleeps of 3 and 6 seconds).
\<close>

theorem rate_limit_spec_witness:
  "check_promo_code sample_code False 3 (world_of (\<lambda>n. reply_of 429 (Some (HInt 10)) (NotJson True []))) =
     (Inr (rate_limited_outcome sample_code),
      (world_of (\<lambda>n. reply_of 429 (Some (HInt 10)) (NotJson True [])))
        \<lparr>calls := 3,
         trace := [Get (gift_url sample_code), Sleep 10, Get (gift_url sample_code), Sleep 20,
                   Get (gift_url sample_code)]\<rparr>)
   \<and> check_promo_code sample_code False 3 (world_of (\<lambda>n. reply_of 429 None (NotJson True []))) =
     (Inr (rate_limited_outcome sample_code),
      (world_of (\<lambda>n. reply_of 429 None (NotJson True [])))
        \<lparr>calls := 3,
         trace := [Get (gift_url sample_code), Sleep 3, Get (gift_url sample_code), Sleep 6,
                   Get (gift_url sample_code)]\<rparr>)"
  using rate_limit_spec [of "world_of (\<lambda>n. reply_of 429 (Some (HInt 10)) (NotJson True []))"
      "\<lambda>i. 10" sample_code False]
    rate_limit_spec [of "world_of (\<lambda>n. reply_of 429 None (NotJson True []))"
      "\<lambda>i. 3" sample_code False]
  by (simp add: world_of_def reply_of_def retry_after_int_def)

section \<open>Properties of check\_promo\_code: how a call ends\<close>

lemma try_block_effects:
  "try_block c debug m a w = (f, w1) \<Longrightarrow>
   script w1 = script w \<and> stamp w1 = stamp w \<and> calls w1 = calls w + 1 \<and>
   (trace w1 = trace w @ [Get (gift_url c)] \<and> (f = Continue \<longrightarrow> False) \<or>
    (\<exists>s. trace w1 = trace w @ [Get (gift_url c), Sleep s]) \<and> f = Continue \<and> int a < m - 1)"
  by (auto simp: try_block_def requests_get_def sleep_def of_result_def Let_def
      split: reply.splits if_splits sum.splits prod.splits)

lemma attempt_once_effects:
  assumes "attempt_once c debug m a w = (f, w1)"
  shows "script w1 = script w \<and> stamp w1 = stamp w \<and> calls w1 = calls w + 1 \<and>
   (trace w1 = trace w @ [Get (gift_url c)] \<and> f \<noteq> Continue \<or>
    (\<exists>s. trace w1 = trace w @ [Get (gift_url c), Sleep s]) \<and> f = Continue \<and> int a < m - 1)"
proof -
  obtain g w0 where t: "try_block c debug m a w = (g, w0)" by (cases "try_block c debug m a w")
  note e = try_block_effects [OF t]
  show ?thesis
  proof (cases "\<exists>d. g = Raise (RequestException d)")
    case True
    then obtain d where g: "g = Raise (RequestException d)" by blast
    with e have tr: "trace w0 = trace w @ [Get (gift_url c)]" by auto
    from assms t g e tr show ?thesis
      by (auto simp: attempt_once_def sleep_def Let_def backoff_nonneg split: if_splits)
  next
    case False
    with assms t have "f = g" "w1 = w0"
      by (auto simp: attempt_once_def split: flow.splits exn.splits)
    with e show ?thesis by auto
  qed
qed








lemma check_first_return:
  "0 < m \<Longrightarrow> attempt_once c debug m 0 w = (Return out, w1) \<Longrightarrow>
   check_promo_code c debug m w = (Inr out, w1)"
  by (simp add: check_promo_code_def attempts.simps [of c debug m 0 w])

lemma check_first_raise:
  "0 < m \<Longrightarrow> attempt_once c debug m 0 w = (Raise e, w1) \<Longrightarrow>
   check_promo_code c debug m w = (Inl e, w1)"
  by (simp add: check_promo_code_def attempts.simps [of c debug m 0 w])

text \<open>
  Claim C4 says that every response with a status other than 429 ends the call after one
  request. A 500 or a 200 response whose text is no JSON document does not:
  \<^verbatim>\<open>response.json()\<close> raises a \<^verbatim>\<open>RequestException\<close>, the handler sleeps and retries, and
  after three requests the outcome is a network error. A 500 response whose JSON body is
  no object yields no outcome at all: \<^verbatim>\<open>error_data.get\<close> raises \<^verbatim>\<open>AttributeError\<close>.
\<close>

theorem terminal_status_counterexample:
  "check_promo_code sample_code False 3
     (world_of (\<lambda>n. reply_of 500 None (NotJson False (ustr ''Expecting value'')))) =
   (Inr (network_error sample_code (ustr ''Expecting value'')),
    (world_of (\<lambda>n. reply_of 500 None (NotJson False (ustr ''Expecting value''))))
      \<lparr>calls := 3,
       trace := [Get (gift_url sample_code), Sleep 2, Get (gift_url sample_code), Sleep 4,
                 Get (gift_url sample_code)]\<rparr>)
   \<and> check_promo_code sample_code False 3
     (world_of (\<lambda>n. reply_of 200 None (NotJson False (ustr ''Expecting value'')))) =
   (Inr (network_error sample_code (ustr ''Expecting value'')),
    (world_of (\<lambda>n. reply_of 200 None (NotJson False (ustr ''Expecting value''))))
      \<lparr>calls := 3,
       trace := [Get (gift_url sample_code), Sleep 2, Get (gift_url sample_code), Sleep 4,
                 Get (gift_url sample_code)]\<rparr>)
   \<and> check_promo_code sample_code False 3
     (world_of (\<lambda>n. reply_of 500 None (Json (PList [])))) =
   (Inl AttributeError,
    requested sample_code (world_of (\<lambda>n. reply_of 500 None (Json (PList [])))))"
proof (intro conjI)
  let ?w = "world_of (\<lambda>n. reply_of 500 None (NotJson False (ustr ''Expecting value'')))"
  have "\<forall>i<3. request_error (script ?w (calls ?w + i)) = Some (ustr ''Expecting value'')"
    by (simp add: world_of_def reply_of_def)
  from attempts_request_errors [of 3 ?w "\<lambda>i. ustr ''Expecting value''" sample_code False, OF _ this]
  show "check_promo_code sample_code False 3 ?w =
     (Inr (network_error sample_code (ustr ''Expecting value'')),
      ?w\<lparr>calls := 3,
         trace := [Get (gift_url sample_code), Sleep 2, Get (gift_url sample_code), Sleep 4,
                   Get (gift_url sample_code)]\<rparr>)"
    by (simp add: world_of_def eval_nat_numeral)
next
  let ?w = "world_of (\<lambda>n. reply_of 200 None (NotJson False (ustr ''Expecting value'')))"
  have "\<forall>i<3. request_error (script ?w (calls ?w + i)) = Some (ustr ''Expecting value'')"
    by (simp add: world_of_def reply_of_def)
  from attempts_request_errors [of 3 ?w "\<lambda>i. ustr ''Expecting value''" sample_code False, OF _ this]
  show "check_promo_code sample_code False 3 ?w =
     (Inr (network_error sample_code (ustr ''Expecting value'')),
      ?w\<lparr>calls := 3,
         trace := [Get (gift_url sample_code), Sleep 2, Get (gift_url sample_code), Sleep 4,
                   Get (gift_url sample_code)]\<rparr>)"
    by (simp add: world_of_def eval_nat_numeral)
next
  let ?r = "\<lparr>status_code = 500, retry_after_header = None, body = Json (PList [])\<rparr>"
  let ?w = "world_of (\<lambda>n. reply_of 500 None (Json (PList [])))"
  have "attempt_once sample_code False 3 0 ?w = (Raise AttributeError, requested sample_code ?w)"
    using attempt_once_unexpected [of ?w ?r sample_code False 3 0]
    by (simp add: world_of_def reply_of_def)
  then show "check_promo_code sample_code False 3 ?w =
      (Inl AttributeError, requested sample_code ?w)"
    by (simp add: check_first_raise)
qed

text \<open>
  Claim C4, amended. At any attempt, a 404 response, a 200 response whose body is a JSON
  object with fields of the declared types, and a response of any other status but 429
  whose text is empty or a JSON object end the attempt with a \<^verbatim>\<open>return\<close> after its one
  request, with no sleep. The 404 yields INVALID; the other statuses yield ERROR, with the
  body's \<^verbatim>\<open>message\<close> field in the message when there is one and "Unknown error"
  otherwise. A \<^verbatim>\<open>return\<close> at the first attempt is the result of the call.
\<close>

theorem terminal_status_spec:
  assumes "script w (calls w) = Response r"
  shows "(status_code r = 404 \<longrightarrow>
            attempt_once c debug m a w = (Return (invalid_outcome c), requested c w) \<and>
            status (invalid_outcome c) = ustr ''INVALID'')
       \<and> (status_code r = 200 \<and> body r = Json (PDict d) \<and> gift_body d \<longrightarrow>
            (\<exists>out. attempt_once c debug m a w = (Return out, requested c w)))
       \<and> (status_code r \<noteq> 200 \<and> status_code r \<noteq> 404 \<and> status_code r \<noteq> 429 \<and>
            body r = NotJson True x \<longrightarrow>
            attempt_once c debug m a w =
              (Return (error_outcome c
                 [Lit (cross_mark @ ustr '' Error checking code: ''),
                  Fmt (PStr (ustr ''Unknown error''))]), requested c w))
       \<and> (status_code r \<noteq> 200 \<and> status_code r \<noteq> 404 \<and> status_code r \<noteq> 429 \<and>
            body r = Json (PDict d) \<longrightarrow>
            attempt_once c debug m a w =
              (Return (error_outcome c
                 [Lit (cross_mark @ ustr '' Error checking code: ''),
                  Fmt (case map_of d (ustr ''message'') of
                         Some v \<Rightarrow> v | None \<Rightarrow> PStr (ustr ''Unknown error''))]),
               requested c w))
       \<and> status (error_outcome c msg) = ustr ''ERROR''
       \<and> (0 < m \<and> attempt_once c debug m 0 w = (Return out, w') \<longrightarrow>
            check_promo_code c debug m w = (Inr out, w'))"
proof (intro conjI impI)
  assume "status_code r = 404"
  then show "attempt_once c debug m a w = (Return (invalid_outcome c), requested c w)"
    by (rule attempt_once_404 [OF assms])
next
  show "status (invalid_outcome c) = ustr ''INVALID''"
    by (simp add: invalid_outcome_def)
next
  assume h: "status_code r = 200 \<and> body r = Json (PDict d) \<and> gift_body d"
  with classify_gift_body [of d c debug] obtain out where "classify c debug (PDict d) = Inr out"
    by blast
  with attempt_once_200 [OF assms, of "PDict d" c debug m a] h
  show "\<exists>out. attempt_once c debug m a w = (Return out, requested c w)"
    by (simp add: of_result_def)
next
  assume h: "status_code r \<noteq> 200 \<and> status_code r \<noteq> 404 \<and> status_code r \<noteq> 429 \<and>
      body r = NotJson True x"
  then have "request_error (Response r) = None" by simp
  with attempt_once_unexpected [OF assms, of c debug m a] h
  show "attempt_once c debug m a w =
      (Return (error_outcome c
         [Lit (cross_mark @ ustr '' Error checking code: ''),
          Fmt (PStr (ustr ''Unknown error''))]), requested c w)"
    by (simp add: dict_get_def)
next
  assume h: "status_code r \<noteq> 200 \<and> status_code r \<noteq> 404 \<and> status_code r \<noteq> 429 \<and>
      body r = Json (PDict d)"
  then have "request_error (Response r) = None" by simp
  with attempt_once_unexpected [OF assms, of c debug m a] h
  show "attempt_once c debug m a w =
      (Return (error_outcome c
         [Lit (cross_mark @ ustr '' Error checking code: ''),
          Fmt (case map_of d (ustr ''message'') of
                 Some v \<Rightarrow> v | None \<Rightarrow> PStr (ustr ''Unknown error''))]),
       requested c w)"
    by (simp add: dict_get_def)
next
  show "status (error_outcome c msg) = ustr ''ERROR''"
    by (simp add: error_outcome_def)
next
  assume "0 < m \<and> attempt_once c debug m 0 w = (Return out, w')"
  then show "check_promo_code c debug m w = (Inr out, w')"
    by (simp add: check_first_return)
qed

text \<open>
  The theorem at a 404, at a 503 with a message, at a 500 with an empty text, and at a
  200 met by the last of three attempts.
\<close>

theorem terminal_status_spec_witness:
  "check_promo_code sample_code False 3 (world_of (\<lambda>n. reply_of 404 None (NotJson True []))) =
     (Inr (invalid_outcome sample_code),
      requested sample_code (world_of (\<lambda>n. reply_of 404 None (NotJson True []))))
   \<and> check_promo_code sample_code False 3
       (world_of (\<lambda>n. reply_of 503 None (Json (PDict [(ustr ''message'', PStr (ustr ''busy''))])))) =
     (Inr (error_outcome sample_code
        [Lit (cross_mark @ ustr '' Error checking code: ''), Fmt (PStr (ustr ''busy''))]),
      requested sample_code
        (world_of (\<lambda>n. reply_of 503 None (Json (PDict [(ustr ''message'', PStr (ustr ''busy''))])))))
   \<and> check_promo_code sample_code False 3 (world_of (\<lambda>n. reply_of 500 None (NotJson True []))) =
     (Inr (error_outcome sample_code
        [Lit (cross_mark @ ustr '' Error checking code: ''), Fmt (PStr (ustr ''Unknown error''))]),
      requested sample_code (world_of (\<lambda>n. reply_of 500 None (NotJson True []))))
   \<and> (\<exists>out. attempt_once sample_code False 3 2
          (world_of (\<lambda>n. reply_of 200 None (Json (PDict [])))) =
        (Return out, requested sample_code (world_of (\<lambda>n. reply_of 200 None (Json (PDict []))))))"
proof (intro conjI)
  let ?r = "\<lparr>status_code = 404, retry_after_header = None, body = NotJson True []\<rparr>"
  let ?w = "world_of (\<lambda>n. reply_of 404 None (NotJson True []))"
  have s: "script ?w (calls ?w) = Response ?r" by (simp add: world_of_def reply_of_def)
  from terminal_status_spec [OF s, where c = sample_code and debug = False and m = 3 and a = 0
      and out = "invalid_outcome sample_code" and w' = "requested sample_code ?w"]
  show "check_promo_code sample_code False 3 ?w =
      (Inr (invalid_outcome sample_code), requested sample_code ?w)"
    by simp
next
  let ?d = "[(ustr ''message'', PStr (ustr ''busy''))]"
  let ?r = "\<lparr>status_code = 503, retry_after_header = None, body = Json (PDict ?d)\<rparr>"
  let ?w = "world_of (\<lambda>n. reply_of 503 None (Json (PDict ?d)))"
  let ?out = "error_outcome sample_code
        [Lit (cross_mark @ ustr '' Error checking code: ''), Fmt (PStr (ustr ''busy''))]"
  have s: "script ?w (calls ?w) = Response ?r" by (simp add: world_of_def reply_of_def)
  from terminal_status_spec [OF s, where c = sample_code and debug = False and m = 3 and a = 0
      and d = ?d and out = ?out and w' = "requested sample_code ?w"]
  show "check_promo_code sample_code False 3 ?w = (Inr ?out, requested sample_code ?w)"
    by simp
next
  let ?r = "\<lparr>status_code = 500, retry_after_header = None, body = NotJson True []\<rparr>"
  let ?w = "world_of (\<lambda>n. reply_of 500 None (NotJson True []))"
  let ?out = "error_outcome sample_code
        [Lit (cross_mark @ ustr '' Error checking code: ''), Fmt (PStr (ustr ''Unknown error''))]"
  have s: "script ?w (calls ?w) = Response ?r" by (simp add: world_of_def reply_of_def)
  from terminal_status_spec [OF s, where c = sample_code and debug = False and m = 3 and a = 0
      and x = "[]" and out = ?out and w' = "requested sample_code ?w"]
  show "check_promo_code sample_code False 3 ?w = (Inr ?out, requested sample_code ?w)"
    by simp
next
  let ?r = "\<lparr>status_code = 200, retry_after_header = None, body = Json (PDict [])\<rparr>"
  let ?w = "world_of (\<lambda>n. reply_of 200 None (Json (PDict [])))"
  have s: "script ?w (calls ?w) = Response ?r" by (simp add: world_of_def reply_of_def)
  have g: "gift_body []" by (simp add: gift_body_def field_is_def)
  from terminal_status_spec [OF s, where c = sample_code and debug = False and m = 3 and a = 2
      and d = "[]"] g
  show "\<exists>out. attempt_once sample_code False 3 2 ?w = (Return out, requested sample_code ?w)"
    by simp
qed

lemma well_formed_outcomes:
  "well_formed c (invalid_outcome c)"
  "well_formed c (rate_limited_outcome c)"
  "msg \<noteq> [] \<Longrightarrow> well_formed c (error_outcome c msg)"
  "well_formed c (network_error c d)"
  "well_formed c (max_retries_exceeded c)"
  by (simp_all add: well_formed_def invalid_outcome_def rate_limited_outcome_def error_outcome_def
      network_error_def max_retries_exceeded_def kinds_def ustr_def)

lemma well_formed_classified:
  assumes "gift_body d"
  shows "\<exists>out. classify c debug (PDict d) = Inr out \<and> well_formed c out"
proof -
  from classify_gift_body [OF assms, of c debug] obtain out
    where out: "classify c debug (PDict d) = Inr out" "code out = c" "valid out"
      "status out = (if redeemed_of d \<or> max_uses_of d \<le> uses_of d
                     then ustr ''CLAIMED'' else ustr ''CLAIMABLE'')" "message out \<noteq> []"
    by blast
  from out(2-5) have "well_formed c out"
    by (simp add: well_formed_def kinds_def)
  with out(1) show ?thesis by blast
qed

lemma attempt_once_tame:
  assumes "tame (script w (calls w))" and "attempt_once c debug m a w = (f, w1)"
  shows "f = Continue \<or> (\<exists>out. f = Return out \<and> well_formed c out)"
proof (cases "request_error (script w (calls w))")
  case (Some d)
  from attempt_once_request_error [OF Some, of c debug m a] assms(2) show ?thesis
    by (auto simp: well_formed_outcomes split: if_splits)
next
  case None
  then obtain r where r: "script w (calls w) = Response r"
    by (cases "script w (calls w)") simp_all
  with assms(1) have t: "tame_response r" by simp
  from None r have ne: "request_error (Response r) = None" by simp
  consider "status_code r = 200" | "status_code r = 404" | "status_code r = 429"
    | "status_code r \<noteq> 200" "status_code r \<noteq> 404" "status_code r \<noteq> 429"
    by blast
  then show ?thesis
  proof cases
    case 1
    with t ne obtain d where d: "body r = Json (PDict d)" "gift_body d"
      by (auto simp: tame_response_def split: body.splits pyval.splits)
    from well_formed_classified [OF d(2), of c debug] obtain out
      where "classify c debug (PDict d) = Inr out" "well_formed c out" by blast
    with attempt_once_200 [OF r 1 d(1), of c debug m a] assms(2) show ?thesis
      by (simp add: of_result_def)
  next
    case 2
    with attempt_once_404 [OF r 2, of c debug m a] assms(2) show ?thesis
      by (auto simp: well_formed_outcomes)
  next
    case 3
    with t obtain ra where ra: "retry_after_int r = Inr ra" "0 \<le> ra"
      by (auto simp: tame_response_def retry_after_int_def
          split: option.splits header_value.splits)
    from ra(2) have "0 \<le> ra * 2 ^ a" by simp
    then have "\<not> min (ra * 2 ^ a) 30 < 0" by (simp add: min_def)
    with attempt_once_429 [OF r 3, of c debug m a] assms(2) ra(1) show ?thesis
      by (auto simp: well_formed_outcomes split: if_splits)
  next
    case 4
    have dict: "is_dict v \<Longrightarrow> \<exists>d. v = PDict d" for v
      by (cases v) simp_all
    from 4 t ne have "(\<exists>x. body r = NotJson True x) \<or> (\<exists>d. body r = Json (PDict d))"
      by (cases "body r") (auto simp: tame_response_def dest: dict split: if_splits)
    with attempt_once_unexpected [OF r 4 ne, of c debug m a] assms(2) show ?thesis
      by (auto simp: well_formed_outcomes)
  qed
qed

lemma attempts_tame:
  "\<forall>n. tame (script w n) \<Longrightarrow>
   \<exists>out w'. attempts c debug m a w = (Inr out, w') \<and> well_formed c out \<and> script w' = script w"
proof (induction c debug m a w rule: attempts.induct)
  case (1 c debug m a w)
  show ?case
  proof (cases "int a < m")
    case False
    then show ?thesis
      by (simp add: attempts.simps [of c debug m a w] well_formed_outcomes)
  next
    case True
    obtain f w1 where once: "attempt_once c debug m a w = (f, w1)"
      by (cases "attempt_once c debug m a w")
    from attempt_once_effects [OF once] have s: "script w1 = script w" by simp
    from "1.prems" have "tame (script w (calls w))" by simp
    from attempt_once_tame [OF this once] show ?thesis
    proof
      assume f: "f = Continue"
      from "1.prems" s have "\<forall>n. tame (script w1 n)" by simp
      from "1.IH" [OF True once [symmetric] f this] s True once f show ?thesis
        by (simp add: attempts.simps [of c debug m a w])
    next
      assume "\<exists>out. f = Return out \<and> well_formed c out"
      with True once s show ?thesis
        by (auto simp: attempts.simps [of c debug m a w])
    qed
  qed
qed

text \<open>
  Claim C5 fails on JSON bodies the program does not expect: with
  \<^verbatim>\<open>{"subscription_plan": null}\<close> the call \<^verbatim>\<open>plan_info.get\<close> raises \<^verbatim>\<open>AttributeError\<close>,
  with \<^verbatim>\<open>{"uses": null}\<close> the comparison \<^verbatim>\<open>uses >= max_uses\<close> raises \<^verbatim>\<open>TypeError\<close>; the
  handler catches \<^verbatim>\<open>RequestException\<close> only, so both reach the caller.
\<close>

theorem no_exception_counterexample:
  "check_promo_code sample_code False 3
     (world_of (\<lambda>n. reply_of 200 None (Json (PDict [(ustr ''subscription_plan'', PNone)])))) =
   (Inl AttributeError,
    requested sample_code
      (world_of (\<lambda>n. reply_of 200 None (Json (PDict [(ustr ''subscription_plan'', PNone)])))))
   \<and> check_promo_code sample_code False 3
     (world_of (\<lambda>n. reply_of 200 None (Json (PDict [(ustr ''uses'', PNone)])))) =
   (Inl TypeError,
    requested sample_code (world_of (\<lambda>n. reply_of 200 None (Json (PDict [(ustr ''uses'', PNone)])))))"
proof (intro conjI)
  let ?d = "[(ustr ''subscription_plan'', PNone)]"
  let ?r = "\<lparr>status_code = 200, retry_after_header = None, body = Json (PDict ?d)\<rparr>"
  let ?w = "world_of (\<lambda>n. reply_of 200 None (Json (PDict ?d)))"
  have "classify sample_code False (PDict ?d) = Inl AttributeError"
    by (simp add: classify_def dict_get_def ustr_def)
  with check_200 [of 3 ?w ?r "PDict ?d" sample_code False]
  show "check_promo_code sample_code False 3 ?w = (Inl AttributeError, requested sample_code ?w)"
    by (simp add: world_of_def reply_of_def)
next
  let ?d = "[(ustr ''uses'', PNone)]"
  let ?r = "\<lparr>status_code = 200, retry_after_header = None, body = Json (PDict ?d)\<rparr>"
  let ?w = "world_of (\<lambda>n. reply_of 200 None (Json (PDict ?d)))"
  have "classify sample_code False (PDict ?d) = Inl TypeError"
    by (simp add: classify_def dict_get_def ustr_def)
  with check_200 [of 3 ?w ?r "PDict ?d" sample_code False]
  show "check_promo_code sample_code False 3 ?w = (Inl TypeError, requested sample_code ?w)"
    by (simp add: world_of_def reply_of_def)
qed

text \<open>
  Claim C5, amended. For every code, every \<open>max_retries\<close> and every script of replies
  that are all \<open>tame\<close> (transport failures, texts that are no JSON document, any status;
  but a JSON body of a 200 is an object with fields of the declared types, a JSON body of
  an unexpected status is an object, and a \<^verbatim>\<open>Retry-After\<close> header of a 429 is absent or
  a non-negative integer) the call returns an outcome, and the outcome is well formed.
\<close>

theorem no_exception_spec:
  assumes "\<forall>n. tame (script w n)"
  shows "\<exists>out w'. check_promo_code c debug max_retries w = (Inr out, w') \<and> well_formed c out"
  using attempts_tame [OF assms, of c debug max_retries 0]
  by (auto simp: check_promo_code_def)

text \<open>
  The theorem on a timeout, then a 429, then a 502 with an HTML page.
\<close>

theorem no_exception_spec_witness:
  "\<exists>out w'. check_promo_code sample_code False 3
       (world_of (\<lambda>n. if n = 0 then Failure (ustr ''timed out'')
                       else if n = 1 then reply_of 429 None (NotJson False (ustr ''<html>''))
                       else reply_of 502 None (NotJson False (ustr ''<html>'')))) =
     (Inr out, w') \<and> well_formed sample_code out"
  using no_exception_spec [of "world_of (\<lambda>n. if n = 0 then Failure (ustr ''timed out'')
                       else if n = 1 then reply_of 429 None (NotJson False (ustr ''<html>''))
                       else reply_of 502 None (NotJson False (ustr ''<html>'')))" sample_code False 3]
  by (simp add: world_of_def reply_of_def tame_response_def)

section \<open>Properties of bulk\_check\_from\_file\<close>














end
